theory Spec2Isabelle
  imports Main
begin

section \<open>Go strings\<close>

text \<open>
  A Go string is a sequence of bytes; \<^typ>\<open>string\<close> is a list of 8-bit characters.
  The functions of package \<open>strings\<close> that the resource calls are written out here.
  \<open>strings.Split\<close> is only ever called with the one-byte separator \<open>"/"\<close>, so the
  separator is a character: the scan cuts the input at every occurrence of it, and the
  empty input gives one empty segment.
\<close>

fun splitLoop :: "string \<Rightarrow> char \<Rightarrow> string \<Rightarrow> string list" where
  "splitLoop [] sep cur = [cur]"
| "splitLoop (c # cs) sep cur =
     (if c = sep then cur # splitLoop cs sep [] else splitLoop cs sep (cur @ [c]))"

definition Split :: "string \<Rightarrow> char \<Rightarrow> string list" where
  "Split s sep = splitLoop s sep []"

fun Join :: "string list \<Rightarrow> string \<Rightarrow> string" where
  "Join [] sep = []"
| "Join [x] sep = x"
| "Join (x # y # ys) sep = x @ sep @ Join (y # ys) sep"

definition TrimLeft :: "string \<Rightarrow> string \<Rightarrow> string" where
  "TrimLeft s cutset = dropWhile (\<lambda>c. c \<in> set cutset) s"

definition TrimRight :: "string \<Rightarrow> string \<Rightarrow> string" where
  "TrimRight s cutset = rev (dropWhile (\<lambda>c. c \<in> set cutset) (rev s))"

definition Trim :: "string \<Rightarrow> string \<Rightarrow> string" where
  "Trim s cutset = TrimRight (TrimLeft s cutset) cutset"

definition HasSuffix :: "string \<Rightarrow> string \<Rightarrow> bool" where
  "HasSuffix s suffix \<longleftrightarrow>
     length s \<ge> length suffix \<and> drop (length s - length suffix) s = suffix"

section \<open>Data\<close>

text \<open>
  \<open>schema.ResourceData\<close> for this resource: the identifier (\<open>d.Id()\<close>, \<open>d.SetId\<close>) and
  the eight string attributes of the schema (\<open>d.Get\<close>, \<open>d.Set\<close>).
\<close>

record ResourceData =
  d_id :: string
  d_name :: string
  d_domain :: string
  d_folder :: string
  d_scope :: string
  d_description :: string
  d_username :: string
  d_privatekey :: string
  d_passphrase :: string

text \<open>
  \<open>jenkins.PrivateKey\<close> and \<open>jenkins.SSHCredentials\<close>, with the fields the resource
  assigns or reads. \<open>PrivateKeySource\<close> holds a pointer or nil. A field the struct
  literal leaves out has Go's zero value, the empty string.
\<close>

record PrivateKey =
  Class :: string
  Value :: string

record SSHCredentials =
  cred_ID :: string
  cred_Scope :: string
  cred_Description :: string
  cred_Username :: string
  cred_PrivateKeySource :: "PrivateKey option"
  cred_Passphrase :: string

definition zeroSSHCredentials :: SSHCredentials where
  "zeroSSHCredentials =
     \<lparr>cred_ID = [], cred_Scope = [], cred_Description = [], cred_Username = [],
      cred_PrivateKeySource = None, cred_Passphrase = []\<rparr>"

text \<open>
  A Go \<open>error\<close> is modelled by its message (\<open>err.Error()\<close>), \<open>nil\<close> by \<open>None\<close>.
  \<open>diag.Diagnostics\<close> is a list of diagnostics; \<open>diag.FromErr\<close> and \<open>diag.Errorf\<close>
  both make the one-element list holding an \<open>Error\<close> diagnostic with the message as
  summary, and \<open>nil\<close> is the empty list.
\<close>

type_synonym error = "string option"

datatype Severity = Error | Warning

datatype Diagnostic = Diagnostic Severity string

type_synonym Diagnostics = "Diagnostic list"

fun isError :: "Diagnostic \<Rightarrow> bool" where
  "isError (Diagnostic sev summary) = (sev = Error)"

definition HasError :: "Diagnostics \<Rightarrow> bool" where
  "HasError diags = list_ex isError diags"

definition FromErr :: "string \<Rightarrow> Diagnostics" where
  "FromErr msg = [Diagnostic Error msg]"

definition Errorf :: "string \<Rightarrow> Diagnostics" where
  "Errorf msg = [Diagnostic Error msg]"

section \<open>Import\<close>

text \<open>
  \<open>resourceJenkinsCredentialSSHImport\<close>. The helper \<open>generateCredentialID\<close> is called
  with the folder and the name; its body is not part of this source file, so it is the
  parameter \<open>gen\<close>. The returned slice holds the pointer \<open>d\<close>, so it shows every
  assignment made to \<open>d\<close>.
\<close>

definition formatErrorMessage :: string where
  "formatErrorMessage =
     ''import ID was improperly formatted. Imports need to be in the format ''
     @ [CHR 0x22] @ ''[<folder>/]<domain>/<name>'' @ [CHR 0x22]"

definition resourceJenkinsCredentialSSHImport ::
    "(string \<Rightarrow> string \<Rightarrow> string) \<Rightarrow> ResourceData \<Rightarrow> ResourceData list \<times> error" where
  "resourceJenkinsCredentialSSHImport gen d =
     (let splitID = Split (d_id d) (CHR ''/'') in
      if length splitID < 2 then ([d], Some formatErrorMessage)
      else
        let name = splitID ! (length splitID - 1);
            d1 = d\<lparr>d_name := name\<rparr>;
            domain = splitID ! (length splitID - 2);
            d2 = d1\<lparr>d_domain := domain\<rparr>;
            folder = Trim (Join (take (length splitID - 2) splitID) ''/'') ''/'';
            d3 = d2\<lparr>d_folder := folder\<rparr>
        in ([d3\<lparr>d_id := gen folder name\<rparr>], None))"

section \<open>The remote side\<close>

text \<open>
  The credentials manager of the Jenkins client and the folder probe are remote calls:
  what they answer is decided by the server. The server is a state of an arbitrary type
  \<open>'srv\<close>; each capability maps the arguments and the server state to its answer and
  the next server state. \<open>cm.Folder\<close> is passed as the first argument of the four
  methods of the credentials manager. \<open>GetSingle\<close> answers with its error and with the
  struct that the caller handed in, as the call leaves it.
\<close>

record 'srv jenkinsClient =
  folderExists :: "string \<Rightarrow> 'srv \<Rightarrow> error \<times> 'srv"
  Add :: "string \<Rightarrow> string \<Rightarrow> SSHCredentials \<Rightarrow> 'srv \<Rightarrow> error \<times> 'srv"
  GetSingle :: "string \<Rightarrow> string \<Rightarrow> string \<Rightarrow> 'srv \<Rightarrow> (error \<times> SSHCredentials) \<times> 'srv"
  Update :: "string \<Rightarrow> string \<Rightarrow> string \<Rightarrow> SSHCredentials \<Rightarrow> 'srv \<Rightarrow> error \<times> 'srv"
  Delete :: "string \<Rightarrow> string \<Rightarrow> string \<Rightarrow> 'srv \<Rightarrow> error \<times> 'srv"

text \<open>Every remote call is logged, in the order in which the operations issue them.\<close>

datatype call =
    CallFolderExists string
  | CallAdd string string SSHCredentials
  | CallGetSingle string string string
  | CallUpdate string string string SSHCredentials
  | CallDelete string string string

record 'srv remote =
  server :: 'srv
  calls :: "call list"

definition issue :: "call \<Rightarrow> ('srv \<Rightarrow> 'r \<times> 'srv) \<Rightarrow> 'srv remote \<Rightarrow> 'r \<times> 'srv remote" where
  "issue c f w =
     (case f (server w) of (r, s') \<Rightarrow> (r, \<lparr>server = s', calls = calls w @ [c]\<rparr>))"

text \<open>The remote writes among the logged calls, and the payloads they carry.\<close>

fun isWrite :: "call \<Rightarrow> bool" where
  "isWrite (CallAdd folder domain cred) = True"
| "isWrite (CallUpdate folder domain name cred) = True"
| "isWrite (CallDelete folder domain name) = True"
| "isWrite (CallFolderExists folder) = False"
| "isWrite (CallGetSingle folder domain name) = False"

fun payloads :: "call list \<Rightarrow> SSHCredentials list" where
  "payloads [] = []"
| "payloads (CallAdd folder domain cred # cs) = cred # payloads cs"
| "payloads (CallUpdate folder domain name cred # cs) = cred # payloads cs"
| "payloads (c # cs) = payloads cs"

section \<open>Read, Create, Update, Delete\<close>

text \<open>
  The package-level names that the operations use and that this source file does not
  define are parameters: \<open>fmt\<close> for \<open>formatFolderName\<close>, \<open>gen\<close> for
  \<open>generateCredentialID\<close>, and \<open>directEntry\<close> for the constant
  \<open>jenkins.KeySourceDirectEntryType\<close>. Each operation returns its diagnostics, the
  resource data as it leaves them, and the remote side.
\<close>

definition resourceJenkinsCredentialSSHRead ::
    "(string \<Rightarrow> string) \<Rightarrow> (string \<Rightarrow> string \<Rightarrow> string) \<Rightarrow> 'srv jenkinsClient \<Rightarrow>
     ResourceData \<Rightarrow> 'srv remote \<Rightarrow> Diagnostics \<times> ResourceData \<times> 'srv remote" where
  "resourceJenkinsCredentialSSHRead fmt gen client d w =
     (let Folder = fmt (d_folder d) in
      case issue (CallGetSingle Folder (d_domain d) (d_name d))
                 (GetSingle client Folder (d_domain d) (d_name d)) w of
        ((err, cred), w1) \<Rightarrow>
          (case err of
             Some msg \<Rightarrow>
               if HasSuffix msg ''404'' then ([], d\<lparr>d_id := []\<rparr>, w1)
               else (Errorf (''Could not read ssh credentials: '' @ msg), d, w1)
           | None \<Rightarrow>
               let d1 = d\<lparr>d_id := gen (d_folder d) (cred_ID cred)\<rparr>;
                   d2 = d1\<lparr>d_scope := cred_Scope cred\<rparr>;
                   d3 = d2\<lparr>d_description := cred_Description cred\<rparr>
               in ([], d3, w1)))"

definition invalidFolderMessage :: "string \<Rightarrow> string \<Rightarrow> string" where
  "invalidFolderMessage Folder msg =
     ''invalid folder name '' @ [CHR 0x27] @ Folder @ [CHR 0x27] @ '' specified: '' @ msg"

text \<open>
  Create (lines 87 to 101) and Update (lines 150 to 164) build the payload with the
  same statements: the struct literal, which names five fields, and then the assignment
  of \<open>Passphrase\<close> under the test \<open>len(passphrase) > 0\<close>.
\<close>

definition sshCredentialsOf :: "string \<Rightarrow> ResourceData \<Rightarrow> SSHCredentials" where
  "sshCredentialsOf directEntry d =
     (let cred = zeroSSHCredentials
            \<lparr>cred_ID := d_name d,
             cred_Scope := d_scope d,
             cred_Description := d_description d,
             cred_Username := d_username d,
             cred_PrivateKeySource := Some \<lparr>Class = directEntry, Value = d_privatekey d\<rparr>\<rparr>;
          passphrase = d_passphrase d
      in if length passphrase > 0 then cred\<lparr>cred_Passphrase := passphrase\<rparr> else cred)"

definition resourceJenkinsCredentialSSHCreate ::
    "(string \<Rightarrow> string) \<Rightarrow> (string \<Rightarrow> string \<Rightarrow> string) \<Rightarrow> string \<Rightarrow> 'srv jenkinsClient \<Rightarrow>
     ResourceData \<Rightarrow> 'srv remote \<Rightarrow> Diagnostics \<times> ResourceData \<times> 'srv remote" where
  "resourceJenkinsCredentialSSHCreate fmt gen directEntry client d w =
     (let Folder = fmt (d_folder d) in
      case issue (CallFolderExists Folder) (folderExists client Folder) w of
        (Some msg, w1) \<Rightarrow> (FromErr (invalidFolderMessage Folder msg), d, w1)
      | (None, w1) \<Rightarrow>
          let cred = sshCredentialsOf directEntry d;
              domain = d_domain d
          in (case issue (CallAdd Folder domain cred) (Add client Folder domain cred) w1 of
                (Some msg, w2) \<Rightarrow>
                  (Errorf (''Could not create ssh credentials: '' @ msg), d, w2)
              | (None, w2) \<Rightarrow>
                  resourceJenkinsCredentialSSHRead fmt gen client
                    (d\<lparr>d_id := gen (d_folder d) (cred_ID cred)\<rparr>) w2))"

definition resourceJenkinsCredentialSSHUpdate ::
    "(string \<Rightarrow> string) \<Rightarrow> (string \<Rightarrow> string \<Rightarrow> string) \<Rightarrow> string \<Rightarrow> 'srv jenkinsClient \<Rightarrow>
     ResourceData \<Rightarrow> 'srv remote \<Rightarrow> Diagnostics \<times> ResourceData \<times> 'srv remote" where
  "resourceJenkinsCredentialSSHUpdate fmt gen directEntry client d w =
     (let Folder = fmt (d_folder d);
          domain = d_domain d;
          cred = sshCredentialsOf directEntry d
      in case issue (CallUpdate Folder domain (d_name d) cred)
                    (Update client Folder domain (d_name d) cred) w of
           (Some msg, w1) \<Rightarrow> (Errorf (''Could not update secret text: '' @ msg), d, w1)
         | (None, w1) \<Rightarrow>
             resourceJenkinsCredentialSSHRead fmt gen client
               (d\<lparr>d_id := gen (d_folder d) (cred_ID cred)\<rparr>) w1)"

definition resourceJenkinsCredentialSSHDelete ::
    "(string \<Rightarrow> string) \<Rightarrow> 'srv jenkinsClient \<Rightarrow>
     ResourceData \<Rightarrow> 'srv remote \<Rightarrow> Diagnostics \<times> ResourceData \<times> 'srv remote" where
  "resourceJenkinsCredentialSSHDelete fmt client d w =
     (let Folder = fmt (d_folder d) in
      case issue (CallDelete Folder (d_domain d) (d_name d))
                 (Delete client Folder (d_domain d) (d_name d)) w of
        (Some msg, w1) \<Rightarrow> (FromErr msg, d, w1)
      | (None, w1) \<Rightarrow> ([], d, w1))"

section \<open>The identifier of the spec\<close>

text \<open>
  This one follows the spec's words, not a function of the source: the three-field
  string \<open>[<folder>/]<domain>/<name>\<close>, with
  \<open>compose("", "domain", "name") = "domain/name"\<close>. It is the format that Import
  asks of an import string.
\<close>

definition composeImportID :: "string \<Rightarrow> string \<Rightarrow> string \<Rightarrow> string" where
  "composeImportID folder domain name =
     (if folder = [] then [] else folder @ ''/'') @ domain @ ''/'' @ name"

text \<open>A resource data with every attribute at its zero value.\<close>

definition emptyResourceData :: ResourceData where
  "emptyResourceData =
     \<lparr>d_id = [], d_name = [], d_domain = [], d_folder = [], d_scope = [],
      d_description = [], d_username = [], d_privatekey = [], d_passphrase = []\<rparr>"

text \<open>The folder, the domain and the name that an import leaves in the resource data.\<close>

definition importedTriple :: "ResourceData \<Rightarrow> string \<times> string \<times> string" where
  "importedTriple d = (d_folder d, d_domain d, d_name d)"

section \<open>Fixed answers for the worked examples\<close>

text \<open>
  A client over a server without state, each capability giving the same answer to every
  call, and a remote side with an empty log.
\<close>

definition stubClient ::
    "error \<Rightarrow> error \<Rightarrow> error \<times> SSHCredentials \<Rightarrow> error \<Rightarrow> error \<Rightarrow> unit jenkinsClient" where
  "stubClient probe added got updated deleted =
     \<lparr>folderExists = (\<lambda>folder s. (probe, s)),
      Add = (\<lambda>folder domain cred s. (added, s)),
      GetSingle = (\<lambda>folder domain name s. (got, s)),
      Update = (\<lambda>folder domain name cred s. (updated, s)),
      Delete = (\<lambda>folder domain name s. (deleted, s))\<rparr>"

definition freshRemote :: "unit remote" where
  "freshRemote = \<lparr>server = (), calls = []\<rparr>"

text \<open>
  In the worked examples some function has to stand where the operations take
  \<open>gen\<close>. This one is used there and nowhere else: every theorem below is stated for
  an arbitrary \<open>gen\<close>, and none rests on what this function computes.
\<close>

definition stubCredentialID :: "string \<Rightarrow> string \<Rightarrow> string" where
  "stubCredentialID folder name = (if folder = [] then name else folder @ ''/'' @ name)"

section \<open>Facts about the string functions\<close>

lemma splitLoop_no_sep: "sep \<notin> set s \<Longrightarrow> splitLoop s sep cur = [cur @ s]"
  by (induction s arbitrary: cur) auto

lemma splitLoop_at_sep:
  "sep \<notin> set a \<Longrightarrow> splitLoop (a @ sep # rest) sep cur = (cur @ a) # splitLoop rest sep []"
  by (induction a arbitrary: cur) auto

lemma splitLoop_length:
  "length (splitLoop s sep cur) = Suc (length (filter (\<lambda>c. c = sep) s))"
  by (induction s arbitrary: cur) auto

lemma Split_no_sep: "sep \<notin> set s \<Longrightarrow> Split s sep = [s]"
  by (simp add: Split_def splitLoop_no_sep)

lemma Split_two: "sep \<notin> set a \<Longrightarrow> sep \<notin> set b \<Longrightarrow> Split (a @ sep # b) sep = [a, b]"
  by (simp add: Split_def splitLoop_at_sep splitLoop_no_sep)

lemma Split_three:
  "sep \<notin> set a \<Longrightarrow> sep \<notin> set b \<Longrightarrow> sep \<notin> set c \<Longrightarrow>
   Split (a @ sep # b @ sep # c) sep = [a, b, c]"
  by (simp add: Split_def splitLoop_at_sep splitLoop_no_sep)

text \<open>One segment exactly when the separator does not occur.\<close>

lemma Split_single_iff: "length (Split s sep) < 2 \<longleftrightarrow> sep \<notin> set s"
  unfolding Split_def splitLoop_length
  by (auto simp: filter_empty_conv less_Suc_eq)

lemma dropWhile_none: "\<forall>x \<in> set xs. \<not> P x \<Longrightarrow> dropWhile P xs = xs"
  by (cases xs) auto

lemma Trim_no_cut:
  assumes "c \<notin> set s"
  shows "Trim s [c] = s"
proof -
  have left: "dropWhile (\<lambda>x. x \<in> set [c]) s = s"
    using assms by (intro dropWhile_none) auto
  have right: "dropWhile (\<lambda>x. x \<in> set [c]) (rev s) = rev s"
    using assms by (intro dropWhile_none) auto
  show ?thesis
    by (simp only: Trim_def TrimLeft_def TrimRight_def left right rev_rev_ident)
qed

lemma Trim_empty: "Trim [] cutset = []"
  by (simp add: Trim_def TrimLeft_def TrimRight_def)

lemma HasError_Errorf: "HasError (Errorf msg)"
  by (simp add: HasError_def Errorf_def)

lemma HasError_FromErr: "HasError (FromErr msg)"
  by (simp add: HasError_def FromErr_def)

lemma payloads_append: "payloads (xs @ ys) = payloads xs @ payloads ys"
  by (induction xs rule: payloads.induct) auto

section \<open>Import\<close>

text \<open>
  Create, Update and Import build the identifier from the folder and the name. Whatever
  function of those two builds it, parsing the identifier gives one triple, so for a
  given folder and name some domain is not recovered.
\<close>

lemma no_roundtrip_without_domain:
  "\<exists>domain. map importedTriple (fst (resourceJenkinsCredentialSSHImport gen
      (d\<lparr>d_id := gen folder name\<rparr>))) \<noteq> [(folder, domain, name)]"
proof (rule ccontr)
  assume "\<not> ?thesis"
  then have "[(folder, ''a'', name)] = [(folder, ''b'', name)]"
    by metis
  then show False by simp
qed

text \<open>
  C1. As stated, the round trip fails, whatever \<open>generateCredentialID\<close> computes from
  the folder and the name it is given: no such function makes the import of the
  identifier return both \<open>(teamA, _, my-key)\<close> and \<open>(teamA, other, my-key)\<close>, two triples
  whose folder holds no slash.
\<close>

theorem roundtrip_counterexample:
  "\<not> (\<exists>gen.
        map importedTriple (fst (resourceJenkinsCredentialSSHImport gen
          (emptyResourceData\<lparr>d_id := gen ''teamA'' ''my-key''\<rparr>)))
        = [(''teamA'', ''_'', ''my-key'')] \<and>
        map importedTriple (fst (resourceJenkinsCredentialSSHImport gen
          (emptyResourceData\<lparr>d_id := gen ''teamA'' ''my-key''\<rparr>)))
        = [(''teamA'', ''other'', ''my-key'')])"
proof
  assume "\<exists>gen.
        map importedTriple (fst (resourceJenkinsCredentialSSHImport gen
          (emptyResourceData\<lparr>d_id := gen ''teamA'' ''my-key''\<rparr>)))
        = [(''teamA'', ''_'', ''my-key'')] \<and>
        map importedTriple (fst (resourceJenkinsCredentialSSHImport gen
          (emptyResourceData\<lparr>d_id := gen ''teamA'' ''my-key''\<rparr>)))
        = [(''teamA'', ''other'', ''my-key'')]"
  then have "[(''teamA'', ''_'', ''my-key'')] = [(''teamA'', ''other'', ''my-key'')]"
    by auto
  then show False by simp
qed

text \<open>
  The three-field string does round-trip only when the domain and the name hold no
  slash either: a slash in the name moves every field one place.
\<close>

lemma composeImportID_slash_in_name:
  "map importedTriple (fst (resourceJenkinsCredentialSSHImport gen
     (emptyResourceData\<lparr>d_id := composeImportID [] ''_'' ''a/b''\<rparr>)))
   = [(''_'', ''a'', ''b'')]"
  by (simp add: resourceJenkinsCredentialSSHImport_def composeImportID_def Split_def
      importedTriple_def Trim_def TrimLeft_def TrimRight_def emptyResourceData_def Let_def)

text \<open>
  C1, amended. For every folder, domain and name without a slash, importing the
  three-field string \<open>[<folder>/]<domain>/<name>\<close> sets the three attributes to the
  triple, returns no error, and sets the identifier to what \<open>generateCredentialID\<close>
  makes of the folder and the name.
\<close>

theorem import_composeImportID:
  assumes "CHR ''/'' \<notin> set folder" and "CHR ''/'' \<notin> set domain" and "CHR ''/'' \<notin> set name"
  shows "resourceJenkinsCredentialSSHImport gen (d\<lparr>d_id := composeImportID folder domain name\<rparr>)
         = ([d\<lparr>d_name := name, d_domain := domain, d_folder := folder,
               d_id := gen folder name\<rparr>], None)"
proof (cases "folder = []")
  case True
  have "Split (composeImportID folder domain name) (CHR ''/'') = [domain, name]"
    using assms True Split_two [of "CHR ''/''" domain name] by (simp add: composeImportID_def)
  then show ?thesis
    using True by (simp add: resourceJenkinsCredentialSSHImport_def Trim_empty)
next
  case False
  have "Split (composeImportID folder domain name) (CHR ''/'') = [folder, domain, name]"
    using assms False Split_three [of "CHR ''/''" folder domain name]
    by (simp add: composeImportID_def)
  then show ?thesis
    using assms(1) Trim_no_cut [of "CHR ''/''" folder]
    by (simp add: resourceJenkinsCredentialSSHImport_def)
qed

theorem import_composeImportID_witness:
  "CHR ''/'' \<notin> set ''teamA'' \<and> CHR ''/'' \<notin> set ''_'' \<and> CHR ''/'' \<notin> set ''my-key'' \<and>
   resourceJenkinsCredentialSSHImport stubCredentialID
     (emptyResourceData\<lparr>d_id := composeImportID ''teamA'' ''_'' ''my-key''\<rparr>)
   = ([emptyResourceData\<lparr>d_name := ''my-key'', d_domain := ''_'', d_folder := ''teamA'',
         d_id := stubCredentialID ''teamA'' ''my-key''\<rparr>], None)"
  using import_composeImportID [of "''teamA''" "''_''" "''my-key''" stubCredentialID
      emptyResourceData]
  by simp

text \<open>
  The import of \<open>teamA/_/my-key\<close> sets the folder to \<open>teamA\<close>, the domain to \<open>_\<close> and
  the name to \<open>my-key\<close>, returns no error, and sets the identifier to what
  \<open>generateCredentialID\<close> makes of \<open>teamA\<close> and \<open>my-key\<close>. The source does not say what
  that is; it is the same for every domain segment.
\<close>

lemma import_three_segments:
  "resourceJenkinsCredentialSSHImport gen (d\<lparr>d_id := ''teamA/_/my-key''\<rparr>)
   = ([d\<lparr>d_name := ''my-key'', d_domain := ''_'', d_folder := ''teamA'',
         d_id := gen ''teamA'' ''my-key''\<rparr>], None)"
  by (simp add: resourceJenkinsCredentialSSHImport_def Split_def
      Trim_def TrimLeft_def TrimRight_def Let_def)

lemma import_identifier_ignores_domain:
  "map d_id (fst (resourceJenkinsCredentialSSHImport gen (d\<lparr>d_id := ''teamA/_/my-key''\<rparr>)))
   = map d_id (fst (resourceJenkinsCredentialSSHImport gen (d\<lparr>d_id := ''teamA/other/my-key''\<rparr>)))"
  by (simp add: resourceJenkinsCredentialSSHImport_def Split_def
      Trim_def TrimLeft_def TrimRight_def Let_def)

text \<open>
  C7. The import of the two-segment string \<open>_/my-key\<close> sets the folder to the empty
  string, the domain to \<open>_\<close> and the name to \<open>my-key\<close>.
\<close>

theorem import_two_segments:
  "resourceJenkinsCredentialSSHImport gen (d\<lparr>d_id := ''_/my-key''\<rparr>)
   = ([d\<lparr>d_name := ''my-key'', d_domain := ''_'', d_folder := [],
         d_id := gen [] ''my-key''\<rparr>], None)"
  by (simp add: resourceJenkinsCredentialSSHImport_def Split_def Trim_empty Let_def)

text \<open>
  C8. An import string without a slash splits into one segment, and the import fails
  with the message that gives the format \<open>[<folder>/]<domain>/<name>\<close>; the resource
  data are returned as they were.
\<close>

theorem import_single_segment:
  "CHR ''/'' \<notin> set (d_id d) \<Longrightarrow>
   Split (d_id d) (CHR ''/'') = [d_id d] \<and>
   resourceJenkinsCredentialSSHImport gen d = ([d], Some formatErrorMessage)"
  by (simp add: resourceJenkinsCredentialSSHImport_def Split_no_sep)

theorem import_single_segment_witness:
  "CHR ''/'' \<notin> set (d_id (emptyResourceData\<lparr>d_id := ''my-key''\<rparr>)) \<and>
   Split (d_id (emptyResourceData\<lparr>d_id := ''my-key''\<rparr>)) (CHR ''/'') = [''my-key''] \<and>
   resourceJenkinsCredentialSSHImport stubCredentialID (emptyResourceData\<lparr>d_id := ''my-key''\<rparr>)
   = ([emptyResourceData\<lparr>d_id := ''my-key''\<rparr>], Some formatErrorMessage)"
  using import_single_segment [of "emptyResourceData\<lparr>d_id := ''my-key''\<rparr>" stubCredentialID]
  by simp

text \<open>
  C10. An import string that splits into two segments or more is imported without an
  error, whatever the segments hold; the string \<open>//\<close> gives the empty name, the empty
  domain and the empty folder.
\<close>

theorem import_unvalidated_segments:
  "(2 \<le> length (Split (d_id d) (CHR ''/'')) \<longrightarrow>
      snd (resourceJenkinsCredentialSSHImport gen d) = None) \<and>
   resourceJenkinsCredentialSSHImport gen (d\<lparr>d_id := ''//''\<rparr>)
   = ([d\<lparr>d_name := [], d_domain := [], d_folder := [], d_id := gen [] []\<rparr>], None)"
  by (simp add: resourceJenkinsCredentialSSHImport_def Let_def Split_def Trim_empty)

theorem import_unvalidated_segments_witness:
  "2 \<le> length (Split (d_id (emptyResourceData\<lparr>d_id := ''/my-key''\<rparr>)) (CHR ''/'')) \<and>
   snd (resourceJenkinsCredentialSSHImport stubCredentialID
          (emptyResourceData\<lparr>d_id := ''/my-key''\<rparr>)) = None"
proof -
  have h: "2 \<le> length (Split (d_id (emptyResourceData\<lparr>d_id := ''/my-key''\<rparr>)) (CHR ''/''))"
    by (simp add: Split_def)
  show ?thesis
    using h import_unvalidated_segments
      [of "emptyResourceData\<lparr>d_id := ''/my-key''\<rparr>" stubCredentialID]
    by blast
qed


section \<open>Read\<close>

text \<open>What Read does when \<open>GetSingle\<close> answers with an error, and when it answers without.\<close>

lemma Read_error:
  assumes "GetSingle client (fmt (d_folder d)) (d_domain d) (d_name d) (server w)
           = ((Some msg, cred), s')"
  shows "resourceJenkinsCredentialSSHRead fmt gen client d w =
     (if HasSuffix msg ''404'' then [] else Errorf (''Could not read ssh credentials: '' @ msg),
      if HasSuffix msg ''404'' then d\<lparr>d_id := []\<rparr> else d,
      \<lparr>server = s',
       calls = calls w @ [CallGetSingle (fmt (d_folder d)) (d_domain d) (d_name d)]\<rparr>)"
  using assms by (simp add: resourceJenkinsCredentialSSHRead_def issue_def Let_def)

lemma Read_success:
  assumes "GetSingle client (fmt (d_folder d)) (d_domain d) (d_name d) (server w)
           = ((None, cred), s')"
  shows "resourceJenkinsCredentialSSHRead fmt gen client d w =
     ([],
      d\<lparr>d_id := gen (d_folder d) (cred_ID cred), d_scope := cred_Scope cred,
        d_description := cred_Description cred\<rparr>,
      \<lparr>server = s',
       calls = calls w @ [CallGetSingle (fmt (d_folder d)) (d_domain d) (d_name d)]\<rparr>)"
  using assms by (simp add: resourceJenkinsCredentialSSHRead_def issue_def Let_def)

lemma Read_frame:
  "resourceJenkinsCredentialSSHRead fmt gen client d w = (diags, d', w') \<Longrightarrow>
   d_name d' = d_name d \<and> d_domain d' = d_domain d \<and> d_folder d' = d_folder d \<and>
   d_username d' = d_username d \<and> d_privatekey d' = d_privatekey d \<and>
   d_passphrase d' = d_passphrase d"
  by (auto simp: resourceJenkinsCredentialSSHRead_def issue_def Let_def
      split: prod.splits option.splits if_splits)

lemma Read_calls:
  "calls (snd (snd (resourceJenkinsCredentialSSHRead fmt gen client d w)))
   = calls w @ [CallGetSingle (fmt (d_folder d)) (d_domain d) (d_name d)]"
  by (auto simp: resourceJenkinsCredentialSSHRead_def issue_def Let_def
      split: prod.splits option.splits if_splits)

text \<open>
  C3. When \<open>GetSingle\<close> answers with an error whose message ends in \<open>404\<close>, Read
  returns no diagnostic and the identifier is the empty string; when the message does
  not end in \<open>404\<close>, Read returns the error diagnostic
  \<open>Could not read ssh credentials: <message>\<close>.
\<close>

theorem read_remote_error:
  assumes "GetSingle client (fmt (d_folder d)) (d_domain d) (d_name d) (server w)
           = ((Some msg, cred), s')"
  shows "(HasSuffix msg ''404'' \<longrightarrow>
            fst (resourceJenkinsCredentialSSHRead fmt gen client d w) = [] \<and>
            d_id (fst (snd (resourceJenkinsCredentialSSHRead fmt gen client d w))) = []) \<and>
         (\<not> HasSuffix msg ''404'' \<longrightarrow>
            fst (resourceJenkinsCredentialSSHRead fmt gen client d w)
              = Errorf (''Could not read ssh credentials: '' @ msg) \<and>
            HasError (fst (resourceJenkinsCredentialSSHRead fmt gen client d w)))"
  using Read_error [of client fmt d w msg cred s' gen] assms by (simp add: HasError_Errorf)

theorem read_remote_error_witness:
  "GetSingle (stubClient None None (Some ''HTTP 404'', zeroSSHCredentials) None None)
     (id (d_folder (emptyResourceData\<lparr>d_id := ''key'', d_name := ''key'', d_domain := ''_''\<rparr>)))
     ''_'' ''key'' (server freshRemote)
     = ((Some ''HTTP 404'', zeroSSHCredentials), ()) \<and>
   HasSuffix ''HTTP 404'' ''404'' \<and>
   fst (resourceJenkinsCredentialSSHRead id stubCredentialID
          (stubClient None None (Some ''HTTP 404'', zeroSSHCredentials) None None)
          (emptyResourceData\<lparr>d_id := ''key'', d_name := ''key'', d_domain := ''_''\<rparr>)
          freshRemote) = [] \<and>
   d_id (fst (snd (resourceJenkinsCredentialSSHRead id stubCredentialID
          (stubClient None None (Some ''HTTP 404'', zeroSSHCredentials) None None)
          (emptyResourceData\<lparr>d_id := ''key'', d_name := ''key'', d_domain := ''_''\<rparr>)
          freshRemote))) = [] \<and>
   GetSingle (stubClient None None (Some ''HTTP 500'', zeroSSHCredentials) None None)
     (id (d_folder (emptyResourceData\<lparr>d_id := ''key'', d_name := ''key'', d_domain := ''_''\<rparr>)))
     ''_'' ''key'' (server freshRemote)
     = ((Some ''HTTP 500'', zeroSSHCredentials), ()) \<and>
   \<not> HasSuffix ''HTTP 500'' ''404'' \<and>
   HasError (fst (resourceJenkinsCredentialSSHRead id stubCredentialID
          (stubClient None None (Some ''HTTP 500'', zeroSSHCredentials) None None)
          (emptyResourceData\<lparr>d_id := ''key'', d_name := ''key'', d_domain := ''_''\<rparr>)
          freshRemote))"
proof -
  let ?d = "emptyResourceData\<lparr>d_id := ''key'', d_name := ''key'', d_domain := ''_''\<rparr>"
  let ?gone = "stubClient None None (Some ''HTTP 404'', zeroSSHCredentials) None None"
  let ?down = "stubClient None None (Some ''HTTP 500'', zeroSSHCredentials) None None"
  have g: "GetSingle ?gone (id (d_folder ?d)) (d_domain ?d) (d_name ?d) (server freshRemote)
           = ((Some ''HTTP 404'', zeroSSHCredentials), ())"
    by (simp add: stubClient_def)
  have e: "GetSingle ?down (id (d_folder ?d)) (d_domain ?d) (d_name ?d) (server freshRemote)
           = ((Some ''HTTP 500'', zeroSSHCredentials), ())"
    by (simp add: stubClient_def)
  have s1: "HasSuffix ''HTTP 404'' ''404''" by (simp add: HasSuffix_def)
  have s2: "\<not> HasSuffix ''HTTP 500'' ''404''" by (simp add: HasSuffix_def)
  show ?thesis
    using read_remote_error [where client = ?gone and fmt = id and d = ?d and w = freshRemote
            and gen = stubCredentialID, OF g]
          read_remote_error [where client = ?down and fmt = id and d = ?d and w = freshRemote
            and gen = stubCredentialID, OF e] g e s1 s2
    by (simp add: HasError_Errorf)
qed

text \<open>
  C9. When \<open>GetSingle\<close> answers with an error whose message does not end in \<open>404\<close>,
  Read returns the resource data as it received them: the identifier and every
  attribute are unchanged.
\<close>

theorem read_fatal_error_frame:
  assumes "GetSingle client (fmt (d_folder d)) (d_domain d) (d_name d) (server w)
           = ((Some msg, cred), s')"
    and "\<not> HasSuffix msg ''404''"
  shows "fst (snd (resourceJenkinsCredentialSSHRead fmt gen client d w)) = d"
  using Read_error [of client fmt d w msg cred s' gen] assms by simp

theorem read_fatal_error_frame_witness:
  "GetSingle (stubClient None None (Some ''HTTP 500'', zeroSSHCredentials) None None)
     (id (d_folder (emptyResourceData\<lparr>d_id := ''key'', d_name := ''key'', d_domain := ''_''\<rparr>)))
     ''_'' ''key'' (server freshRemote)
     = ((Some ''HTTP 500'', zeroSSHCredentials), ()) \<and>
   \<not> HasSuffix ''HTTP 500'' ''404'' \<and>
   fst (snd (resourceJenkinsCredentialSSHRead id stubCredentialID
          (stubClient None None (Some ''HTTP 500'', zeroSSHCredentials) None None)
          (emptyResourceData\<lparr>d_id := ''key'', d_name := ''key'', d_domain := ''_''\<rparr>)
          freshRemote))
   = emptyResourceData\<lparr>d_id := ''key'', d_name := ''key'', d_domain := ''_''\<rparr>"
proof -
  let ?d = "emptyResourceData\<lparr>d_id := ''key'', d_name := ''key'', d_domain := ''_''\<rparr>"
  let ?down = "stubClient None None (Some ''HTTP 500'', zeroSSHCredentials) None None"
  have e: "GetSingle ?down (id (d_folder ?d)) (d_domain ?d) (d_name ?d) (server freshRemote)
           = ((Some ''HTTP 500'', zeroSSHCredentials), ())"
    by (simp add: stubClient_def)
  have s: "\<not> HasSuffix ''HTTP 500'' ''404''" by (simp add: HasSuffix_def)
  show ?thesis
    using read_fatal_error_frame [where client = ?down and fmt = id and d = ?d
            and w = freshRemote and gen = stubCredentialID, OF e s] e s
    by simp
qed

text \<open>
  C6. When \<open>GetSingle\<close> answers without an error, Read returns no diagnostic and the
  resource data it received with three assignments: the identifier, the scope and the
  description, the last two taken from the remote object. In every Read, whatever the
  remote side answers, the private key, the passphrase, the name, the domain, the
  folder and the username are those that Read received.
\<close>

theorem read_success_frame:
  "(GetSingle client (fmt (d_folder d)) (d_domain d) (d_name d) (server w) = ((None, cred), s')
      \<longrightarrow> fst (resourceJenkinsCredentialSSHRead fmt gen client d w) = [] \<and>
          fst (snd (resourceJenkinsCredentialSSHRead fmt gen client d w))
            = d\<lparr>d_id := gen (d_folder d) (cred_ID cred), d_scope := cred_Scope cred,
                d_description := cred_Description cred\<rparr>) \<and>
   d_privatekey (fst (snd (resourceJenkinsCredentialSSHRead fmt gen client d w))) = d_privatekey d \<and>
   d_passphrase (fst (snd (resourceJenkinsCredentialSSHRead fmt gen client d w))) = d_passphrase d \<and>
   d_name (fst (snd (resourceJenkinsCredentialSSHRead fmt gen client d w))) = d_name d \<and>
   d_domain (fst (snd (resourceJenkinsCredentialSSHRead fmt gen client d w))) = d_domain d \<and>
   d_folder (fst (snd (resourceJenkinsCredentialSSHRead fmt gen client d w))) = d_folder d \<and>
   d_username (fst (snd (resourceJenkinsCredentialSSHRead fmt gen client d w))) = d_username d"
proof -
  obtain diags d' w' where r: "resourceJenkinsCredentialSSHRead fmt gen client d w = (diags, d', w')"
    by (cases "resourceJenkinsCredentialSSHRead fmt gen client d w") auto
  show ?thesis
    using Read_frame [OF r] Read_success [of client fmt d w cred s' gen] r by auto
qed

theorem read_success_frame_witness:
  "GetSingle
     (stubClient None None
        (None, zeroSSHCredentials\<lparr>cred_ID := ''key'', cred_Scope := ''SYSTEM'',
                 cred_Description := ''remote text'', cred_Passphrase := ''garbage''\<rparr>)
        None None)
     (id (d_folder (emptyResourceData\<lparr>d_name := ''key'', d_domain := ''_'',
            d_scope := ''GLOBAL'', d_privatekey := ''PEM'', d_passphrase := ''secret''\<rparr>)))
     ''_'' ''key'' (server freshRemote)
   = ((None, zeroSSHCredentials\<lparr>cred_ID := ''key'', cred_Scope := ''SYSTEM'',
                 cred_Description := ''remote text'', cred_Passphrase := ''garbage''\<rparr>), ()) \<and>
   fst (snd (resourceJenkinsCredentialSSHRead id stubCredentialID
     (stubClient None None
        (None, zeroSSHCredentials\<lparr>cred_ID := ''key'', cred_Scope := ''SYSTEM'',
                 cred_Description := ''remote text'', cred_Passphrase := ''garbage''\<rparr>)
        None None)
     (emptyResourceData\<lparr>d_name := ''key'', d_domain := ''_'',
            d_scope := ''GLOBAL'', d_privatekey := ''PEM'', d_passphrase := ''secret''\<rparr>)
     freshRemote))
   = emptyResourceData\<lparr>d_id := ''key'', d_name := ''key'', d_domain := ''_'',
       d_scope := ''SYSTEM'', d_description := ''remote text'', d_privatekey := ''PEM'',
       d_passphrase := ''secret''\<rparr>"
proof -
  let ?d = "emptyResourceData\<lparr>d_name := ''key'', d_domain := ''_'',
            d_scope := ''GLOBAL'', d_privatekey := ''PEM'', d_passphrase := ''secret''\<rparr>"
  let ?cred = "zeroSSHCredentials\<lparr>cred_ID := ''key'', cred_Scope := ''SYSTEM'',
                 cred_Description := ''remote text'', cred_Passphrase := ''garbage''\<rparr>"
  let ?client = "stubClient None None (None, ?cred) None None"
  have g: "GetSingle ?client (id (d_folder ?d)) (d_domain ?d) (d_name ?d) (server freshRemote)
           = ((None, ?cred), ())"
    by (simp add: stubClient_def)
  show ?thesis
    using read_success_frame [where client = ?client and fmt = id and d = ?d
            and w = freshRemote and gen = stubCredentialID and cred = ?cred and s' = "()"] g
    by (simp add: stubCredentialID_def emptyResourceData_def zeroSSHCredentials_def)
qed


section \<open>Create and Update\<close>

lemma sshCredentialsOf_ID: "cred_ID (sshCredentialsOf directEntry d) = d_name d"
  by (simp add: sshCredentialsOf_def Let_def)

lemma Create_probe_failed:
  assumes "folderExists client (fmt (d_folder d)) (server w) = (Some msg, s1)"
  shows "resourceJenkinsCredentialSSHCreate fmt gen directEntry client d w =
     (FromErr (invalidFolderMessage (fmt (d_folder d)) msg), d,
      \<lparr>server = s1, calls = calls w @ [CallFolderExists (fmt (d_folder d))]\<rparr>)"
  using assms by (simp add: resourceJenkinsCredentialSSHCreate_def issue_def Let_def)

lemma Create_add_failed:
  assumes "folderExists client (fmt (d_folder d)) (server w) = (None, s1)"
    and "Add client (fmt (d_folder d)) (d_domain d) (sshCredentialsOf directEntry d) s1
         = (Some msg, s2)"
  shows "resourceJenkinsCredentialSSHCreate fmt gen directEntry client d w =
     (Errorf (''Could not create ssh credentials: '' @ msg), d,
      \<lparr>server = s2,
       calls = calls w @ [CallFolderExists (fmt (d_folder d)),
                          CallAdd (fmt (d_folder d)) (d_domain d)
                            (sshCredentialsOf directEntry d)]\<rparr>)"
  using assms by (simp add: resourceJenkinsCredentialSSHCreate_def issue_def Let_def)

lemma Create_added:
  assumes "folderExists client (fmt (d_folder d)) (server w) = (None, s1)"
    and "Add client (fmt (d_folder d)) (d_domain d) (sshCredentialsOf directEntry d) s1
         = (None, s2)"
  shows "resourceJenkinsCredentialSSHCreate fmt gen directEntry client d w =
     resourceJenkinsCredentialSSHRead fmt gen client
       (d\<lparr>d_id := gen (d_folder d) (d_name d)\<rparr>)
       \<lparr>server = s2,
        calls = calls w @ [CallFolderExists (fmt (d_folder d)),
                           CallAdd (fmt (d_folder d)) (d_domain d)
                             (sshCredentialsOf directEntry d)]\<rparr>"
  using assms
  by (simp add: resourceJenkinsCredentialSSHCreate_def issue_def Let_def sshCredentialsOf_ID)

lemma Update_failed:
  assumes "Update client (fmt (d_folder d)) (d_domain d) (d_name d)
             (sshCredentialsOf directEntry d) (server w) = (Some msg, s1)"
  shows "resourceJenkinsCredentialSSHUpdate fmt gen directEntry client d w =
     (Errorf (''Could not update secret text: '' @ msg), d,
      \<lparr>server = s1,
       calls = calls w @ [CallUpdate (fmt (d_folder d)) (d_domain d) (d_name d)
                            (sshCredentialsOf directEntry d)]\<rparr>)"
  using assms by (simp add: resourceJenkinsCredentialSSHUpdate_def issue_def Let_def)

lemma Update_updated:
  assumes "Update client (fmt (d_folder d)) (d_domain d) (d_name d)
             (sshCredentialsOf directEntry d) (server w) = (None, s1)"
  shows "resourceJenkinsCredentialSSHUpdate fmt gen directEntry client d w =
     resourceJenkinsCredentialSSHRead fmt gen client
       (d\<lparr>d_id := gen (d_folder d) (d_name d)\<rparr>)
       \<lparr>server = s1,
        calls = calls w @ [CallUpdate (fmt (d_folder d)) (d_domain d) (d_name d)
                             (sshCredentialsOf directEntry d)]\<rparr>"
  using assms
  by (simp add: resourceJenkinsCredentialSSHUpdate_def issue_def Let_def sshCredentialsOf_ID)

lemma Create_payloads:
  assumes "fst (folderExists client (fmt (d_folder d)) (server w)) = None"
  shows "payloads (calls (snd (snd (resourceJenkinsCredentialSSHCreate fmt gen directEntry
            client d w))))
         = payloads (calls w) @ [sshCredentialsOf directEntry d]"
proof -
  obtain s1 where p: "folderExists client (fmt (d_folder d)) (server w) = (None, s1)"
    using assms by (cases "folderExists client (fmt (d_folder d)) (server w)") auto
  obtain r s2 where a:
    "Add client (fmt (d_folder d)) (d_domain d) (sshCredentialsOf directEntry d) s1 = (r, s2)"
    by (cases "Add client (fmt (d_folder d)) (d_domain d) (sshCredentialsOf directEntry d) s1")
  show ?thesis
  proof (cases r)
    case None
    then show ?thesis
      using Create_added [where client = client and fmt = fmt and d = d and w = w
              and ?s1.0 = s1 and directEntry = directEntry and ?s2.0 = s2 and gen = gen] p a
      by (simp add: Read_calls payloads_append)
  next
    case (Some msg)
    then show ?thesis
      using Create_add_failed [where client = client and fmt = fmt and d = d and w = w
              and ?s1.0 = s1 and directEntry = directEntry and msg = msg and ?s2.0 = s2
              and gen = gen] p a
      by (simp add: payloads_append)
  qed
qed

lemma Update_payloads:
  "payloads (calls (snd (snd (resourceJenkinsCredentialSSHUpdate fmt gen directEntry
      client d w))))
   = payloads (calls w) @ [sshCredentialsOf directEntry d]"
proof -
  obtain r s1 where u:
    "Update client (fmt (d_folder d)) (d_domain d) (d_name d)
       (sshCredentialsOf directEntry d) (server w) = (r, s1)"
    by (cases "Update client (fmt (d_folder d)) (d_domain d) (d_name d)
                 (sshCredentialsOf directEntry d) (server w)")
  show ?thesis
  proof (cases r)
    case None
    then show ?thesis
      using Update_updated [of client fmt d directEntry w s1 gen] u
      by (simp add: Read_calls payloads_append)
  next
    case (Some msg)
    then show ?thesis
      using Update_failed [of client fmt d directEntry w msg s1 gen] u
      by (simp add: payloads_append)
  qed
qed

text \<open>
  C4. When the folder probe fails, Create returns the error diagnostic
  \<open>invalid folder name '<folder>' specified: <cause>\<close>, leaves the resource data as
  they were, and has issued the probe and nothing else, so no remote write. When the
  probe passes and \<open>Add\<close> fails, Create returns the error diagnostic
  \<open>Could not create ssh credentials: <cause>\<close> and leaves the resource data, the
  identifier among them, as they were. Whenever the identifier after Create differs
  from the one before, the probe has passed and \<open>Add\<close> has succeeded.
\<close>

theorem create_failures:
  "(folderExists client (fmt (d_folder d)) (server w) = (Some msg, s1) \<longrightarrow>
      resourceJenkinsCredentialSSHCreate fmt gen directEntry client d w
        = (FromErr (invalidFolderMessage (fmt (d_folder d)) msg), d,
           \<lparr>server = s1, calls = calls w @ [CallFolderExists (fmt (d_folder d))]\<rparr>) \<and>
      HasError (fst (resourceJenkinsCredentialSSHCreate fmt gen directEntry client d w)) \<and>
      filter isWrite (calls (snd (snd
          (resourceJenkinsCredentialSSHCreate fmt gen directEntry client d w))))
        = filter isWrite (calls w)) \<and>
   (folderExists client (fmt (d_folder d)) (server w) = (None, s1) \<and>
    Add client (fmt (d_folder d)) (d_domain d) (sshCredentialsOf directEntry d) s1
      = (Some msg, s2) \<longrightarrow>
      fst (resourceJenkinsCredentialSSHCreate fmt gen directEntry client d w)
        = Errorf (''Could not create ssh credentials: '' @ msg) \<and>
      HasError (fst (resourceJenkinsCredentialSSHCreate fmt gen directEntry client d w)) \<and>
      fst (snd (resourceJenkinsCredentialSSHCreate fmt gen directEntry client d w)) = d) \<and>
   (d_id (fst (snd (resourceJenkinsCredentialSSHCreate fmt gen directEntry client d w)))
      \<noteq> d_id d \<longrightarrow>
      fst (folderExists client (fmt (d_folder d)) (server w)) = None \<and>
      fst (Add client (fmt (d_folder d)) (d_domain d) (sshCredentialsOf directEntry d)
            (snd (folderExists client (fmt (d_folder d)) (server w)))) = None)"
proof (intro conjI impI)
  assume p: "folderExists client (fmt (d_folder d)) (server w) = (Some msg, s1)"
  show "resourceJenkinsCredentialSSHCreate fmt gen directEntry client d w
        = (FromErr (invalidFolderMessage (fmt (d_folder d)) msg), d,
           \<lparr>server = s1, calls = calls w @ [CallFolderExists (fmt (d_folder d))]\<rparr>)"
    using Create_probe_failed [where client = client and fmt = fmt and d = d and w = w
            and msg = msg and ?s1.0 = s1] p by simp
  then show c1: "HasError (fst (resourceJenkinsCredentialSSHCreate fmt gen directEntry client d w))"
    by (simp add: HasError_FromErr)
  show "filter isWrite (calls (snd (snd
          (resourceJenkinsCredentialSSHCreate fmt gen directEntry client d w))))
        = filter isWrite (calls w)"
    using Create_probe_failed [where client = client and fmt = fmt and d = d and w = w
            and msg = msg and ?s1.0 = s1 and gen = gen and directEntry = directEntry] p
    by simp
next
  assume pa: "folderExists client (fmt (d_folder d)) (server w) = (None, s1) \<and>
    Add client (fmt (d_folder d)) (d_domain d) (sshCredentialsOf directEntry d) s1
      = (Some msg, s2)"
  have c: "resourceJenkinsCredentialSSHCreate fmt gen directEntry client d w =
     (Errorf (''Could not create ssh credentials: '' @ msg), d,
      \<lparr>server = s2,
       calls = calls w @ [CallFolderExists (fmt (d_folder d)),
                          CallAdd (fmt (d_folder d)) (d_domain d)
                            (sshCredentialsOf directEntry d)]\<rparr>)"
    using pa Create_add_failed [of client fmt d w s1 directEntry msg s2 gen] by simp
  show "fst (resourceJenkinsCredentialSSHCreate fmt gen directEntry client d w)
        = Errorf (''Could not create ssh credentials: '' @ msg)"
    by (simp add: c)
  show "HasError (fst (resourceJenkinsCredentialSSHCreate fmt gen directEntry client d w))"
    by (simp add: c HasError_Errorf)
  show "fst (snd (resourceJenkinsCredentialSSHCreate fmt gen directEntry client d w)) = d"
    by (simp add: c)
next
  assume changed:
    "d_id (fst (snd (resourceJenkinsCredentialSSHCreate fmt gen directEntry client d w)))
       \<noteq> d_id d"
  show "fst (folderExists client (fmt (d_folder d)) (server w)) = None"
  proof (cases "fst (folderExists client (fmt (d_folder d)) (server w))")
    case None
    then show ?thesis .
  next
    case (Some m)
    then have "folderExists client (fmt (d_folder d)) (server w)
               = (Some m, snd (folderExists client (fmt (d_folder d)) (server w)))"
      by (simp add: prod_eq_iff)
    with Create_probe_failed [where client = client and fmt = fmt and d = d and w = w
           and msg = m and gen = gen and directEntry = directEntry] changed
    show ?thesis by simp
  qed
  then have p: "folderExists client (fmt (d_folder d)) (server w)
               = (None, snd (folderExists client (fmt (d_folder d)) (server w)))"
    by (simp add: prod_eq_iff)
  let ?s1 = "snd (folderExists client (fmt (d_folder d)) (server w))"
  show "fst (Add client (fmt (d_folder d)) (d_domain d) (sshCredentialsOf directEntry d) ?s1)
        = None"
  proof (cases "fst (Add client (fmt (d_folder d)) (d_domain d)
                       (sshCredentialsOf directEntry d) ?s1)")
    case None
    then show ?thesis .
  next
    case (Some m)
    then have "Add client (fmt (d_folder d)) (d_domain d) (sshCredentialsOf directEntry d) ?s1
               = (Some m, snd (Add client (fmt (d_folder d)) (d_domain d)
                                 (sshCredentialsOf directEntry d) ?s1))"
      by (simp add: prod_eq_iff)
    with Create_add_failed [where client = client and fmt = fmt and d = d and w = w
           and ?s1.0 = ?s1 and msg = m and gen = gen and directEntry = directEntry] p changed
    show ?thesis by simp
  qed
qed

theorem create_failures_witness:
  "folderExists (stubClient (Some ''no such folder'') None (None, zeroSSHCredentials) None None)
     (id (d_folder (emptyResourceData\<lparr>d_name := ''key'', d_folder := ''teamA''\<rparr>)))
     (server freshRemote) = (Some ''no such folder'', ()) \<and>
   resourceJenkinsCredentialSSHCreate id stubCredentialID ''direct''
     (stubClient (Some ''no such folder'') None (None, zeroSSHCredentials) None None)
     (emptyResourceData\<lparr>d_name := ''key'', d_folder := ''teamA''\<rparr>) freshRemote
   = (FromErr (invalidFolderMessage
                 (id (d_folder (emptyResourceData\<lparr>d_name := ''key'', d_folder := ''teamA''\<rparr>)))
                 ''no such folder''),
      emptyResourceData\<lparr>d_name := ''key'', d_folder := ''teamA''\<rparr>,
      \<lparr>server = (),
       calls = calls freshRemote @
         [CallFolderExists
            (id (d_folder (emptyResourceData\<lparr>d_name := ''key'', d_folder := ''teamA''\<rparr>)))]\<rparr>) \<and>
   folderExists (stubClient None (Some ''HTTP 500'') (None, zeroSSHCredentials) None None)
     (id (d_folder (emptyResourceData\<lparr>d_name := ''key'', d_folder := ''teamA''\<rparr>)))
     (server freshRemote) = (None, ()) \<and>
   Add (stubClient None (Some ''HTTP 500'') (None, zeroSSHCredentials) None None)
     (id (d_folder (emptyResourceData\<lparr>d_name := ''key'', d_folder := ''teamA''\<rparr>)))
     (d_domain (emptyResourceData\<lparr>d_name := ''key'', d_folder := ''teamA''\<rparr>))
     (sshCredentialsOf ''direct'' (emptyResourceData\<lparr>d_name := ''key'', d_folder := ''teamA''\<rparr>))
     () = (Some ''HTTP 500'', ()) \<and>
   fst (snd (resourceJenkinsCredentialSSHCreate id stubCredentialID ''direct''
     (stubClient None (Some ''HTTP 500'') (None, zeroSSHCredentials) None None)
     (emptyResourceData\<lparr>d_name := ''key'', d_folder := ''teamA''\<rparr>) freshRemote))
   = emptyResourceData\<lparr>d_name := ''key'', d_folder := ''teamA''\<rparr> \<and>
   d_id (fst (snd (resourceJenkinsCredentialSSHCreate id stubCredentialID ''direct''
     (stubClient None None (None, zeroSSHCredentials\<lparr>cred_ID := ''key''\<rparr>) None None)
     (emptyResourceData\<lparr>d_name := ''key'', d_folder := ''teamA''\<rparr>) freshRemote)))
   \<noteq> d_id (emptyResourceData\<lparr>d_name := ''key'', d_folder := ''teamA''\<rparr>) \<and>
   fst (Add (stubClient None None (None, zeroSSHCredentials\<lparr>cred_ID := ''key''\<rparr>) None None)
     (id (d_folder (emptyResourceData\<lparr>d_name := ''key'', d_folder := ''teamA''\<rparr>)))
     (d_domain (emptyResourceData\<lparr>d_name := ''key'', d_folder := ''teamA''\<rparr>))
     (sshCredentialsOf ''direct'' (emptyResourceData\<lparr>d_name := ''key'', d_folder := ''teamA''\<rparr>))
     (snd (folderExists
        (stubClient None None (None, zeroSSHCredentials\<lparr>cred_ID := ''key''\<rparr>) None None)
        (id (d_folder (emptyResourceData\<lparr>d_name := ''key'', d_folder := ''teamA''\<rparr>)))
        (server freshRemote)))) = None"
proof -
  let ?d = "emptyResourceData\<lparr>d_name := ''key'', d_folder := ''teamA''\<rparr>"
  let ?nofolder = "stubClient (Some ''no such folder'') None (None, zeroSSHCredentials) None None"
  let ?down = "stubClient None (Some ''HTTP 500'') (None, zeroSSHCredentials) None None"
  let ?up = "stubClient None None (None, zeroSSHCredentials\<lparr>cred_ID := ''key''\<rparr>) None None"
  have p1: "folderExists ?nofolder (id (d_folder ?d)) (server freshRemote)
            = (Some ''no such folder'', ())"
    by (simp add: stubClient_def)
  have p2: "folderExists ?down (id (d_folder ?d)) (server freshRemote) = (None, ())"
    by (simp add: stubClient_def)
  have a2: "Add ?down (id (d_folder ?d)) (d_domain ?d) (sshCredentialsOf ''direct'' ?d) ()
            = (Some ''HTTP 500'', ())"
    by (simp add: stubClient_def)
  have ch: "d_id (fst (snd (resourceJenkinsCredentialSSHCreate id stubCredentialID ''direct''
               ?up ?d freshRemote))) \<noteq> d_id ?d"
    by (simp add: resourceJenkinsCredentialSSHCreate_def resourceJenkinsCredentialSSHRead_def
        issue_def Let_def stubClient_def freshRemote_def emptyResourceData_def
        stubCredentialID_def sshCredentialsOf_def zeroSSHCredentials_def)
  have r1: "resourceJenkinsCredentialSSHCreate id stubCredentialID ''direct'' ?nofolder ?d
              freshRemote
            = (FromErr (invalidFolderMessage (id (d_folder ?d)) ''no such folder''), ?d,
               \<lparr>server = (),
                calls = calls freshRemote @ [CallFolderExists (id (d_folder ?d))]\<rparr>)"
    using create_failures [where client = ?nofolder and fmt = id and d = ?d and w = freshRemote
            and gen = stubCredentialID and directEntry = "''direct''"
            and msg = "''no such folder''" and ?s1.0 = "()"] p1
    by blast
  have r2: "fst (snd (resourceJenkinsCredentialSSHCreate id stubCredentialID ''direct''
              ?down ?d freshRemote)) = ?d"
    using create_failures [where client = ?down and fmt = id and d = ?d and w = freshRemote
            and gen = stubCredentialID and directEntry = "''direct''"
            and msg = "''HTTP 500''" and ?s1.0 = "()" and ?s2.0 = "()"] p2 a2
    by blast
  have r3: "fst (Add ?up (id (d_folder ?d)) (d_domain ?d) (sshCredentialsOf ''direct'' ?d)
              (snd (folderExists ?up (id (d_folder ?d)) (server freshRemote)))) = None"
    using create_failures [where client = ?up and fmt = id and d = ?d and w = freshRemote
            and gen = stubCredentialID and directEntry = "''direct''"] ch
    by blast
  from p1 r1 p2 a2 r2 ch r3 show ?thesis
    by (intro conjI)
qed

text \<open>
  C5. The payload that Create hands to \<open>Add\<close> (once the folder probe has passed) and
  the payload that Update hands to \<open>Update\<close> are the one remote payload of the
  operation. When the passphrase attribute is not empty the payload's \<open>Passphrase\<close> is
  that passphrase; when it is empty the field is never assigned and holds the zero
  value of the struct.
\<close>

theorem payload_passphrase:
  "(fst (folderExists client (fmt (d_folder d)) (server w)) = None \<longrightarrow>
      payloads (calls (snd (snd (resourceJenkinsCredentialSSHCreate fmt gen directEntry
          client d w))))
        = payloads (calls w) @ [sshCredentialsOf directEntry d]) \<and>
   payloads (calls (snd (snd (resourceJenkinsCredentialSSHUpdate fmt gen directEntry
       client d w))))
     = payloads (calls w) @ [sshCredentialsOf directEntry d] \<and>
   (d_passphrase d \<noteq> [] \<longrightarrow>
      cred_Passphrase (sshCredentialsOf directEntry d) = d_passphrase d) \<and>
   (d_passphrase d = [] \<longrightarrow>
      sshCredentialsOf directEntry d
        = zeroSSHCredentials
            \<lparr>cred_ID := d_name d,
             cred_Scope := d_scope d,
             cred_Description := d_description d,
             cred_Username := d_username d,
             cred_PrivateKeySource := Some \<lparr>Class = directEntry, Value = d_privatekey d\<rparr>\<rparr> \<and>
      cred_Passphrase (sshCredentialsOf directEntry d) = cred_Passphrase zeroSSHCredentials)"
proof (intro conjI impI)
  assume "fst (folderExists client (fmt (d_folder d)) (server w)) = None"
  then show "payloads (calls (snd (snd (resourceJenkinsCredentialSSHCreate fmt gen directEntry
          client d w))))
        = payloads (calls w) @ [sshCredentialsOf directEntry d]"
    by (rule Create_payloads)
next
  show "payloads (calls (snd (snd (resourceJenkinsCredentialSSHUpdate fmt gen directEntry
       client d w))))
     = payloads (calls w) @ [sshCredentialsOf directEntry d]"
    by (rule Update_payloads)
next
  assume "d_passphrase d \<noteq> []"
  then show "cred_Passphrase (sshCredentialsOf directEntry d) = d_passphrase d"
    by (simp add: sshCredentialsOf_def Let_def)
next
  assume e: "d_passphrase d = []"
  then show "sshCredentialsOf directEntry d
        = zeroSSHCredentials
            \<lparr>cred_ID := d_name d,
             cred_Scope := d_scope d,
             cred_Description := d_description d,
             cred_Username := d_username d,
             cred_PrivateKeySource := Some \<lparr>Class = directEntry, Value = d_privatekey d\<rparr>\<rparr>"
    by (simp add: sshCredentialsOf_def Let_def)
  from e show "cred_Passphrase (sshCredentialsOf directEntry d)
               = cred_Passphrase zeroSSHCredentials"
    by (simp add: sshCredentialsOf_def Let_def)
qed

theorem payload_passphrase_witness:
  "fst (folderExists (stubClient None None (None, zeroSSHCredentials) None None)
     (id (d_folder (emptyResourceData\<lparr>d_name := ''key'', d_passphrase := ''secret''\<rparr>)))
     (server freshRemote)) = None \<and>
   d_passphrase (emptyResourceData\<lparr>d_name := ''key'', d_passphrase := ''secret''\<rparr>) \<noteq> [] \<and>
   map cred_Passphrase (payloads (calls (snd (snd
     (resourceJenkinsCredentialSSHCreate id stubCredentialID ''direct''
        (stubClient None None (None, zeroSSHCredentials) None None)
        (emptyResourceData\<lparr>d_name := ''key'', d_passphrase := ''secret''\<rparr>) freshRemote)))))
   = [''secret''] \<and>
   map cred_Passphrase (payloads (calls (snd (snd
     (resourceJenkinsCredentialSSHUpdate id stubCredentialID ''direct''
        (stubClient None None (None, zeroSSHCredentials) None None)
        (emptyResourceData\<lparr>d_name := ''key'', d_passphrase := ''secret''\<rparr>) freshRemote)))))
   = [''secret''] \<and>
   d_passphrase (emptyResourceData\<lparr>d_name := ''key''\<rparr>) = [] \<and>
   map cred_Passphrase (payloads (calls (snd (snd
     (resourceJenkinsCredentialSSHCreate id stubCredentialID ''direct''
        (stubClient None None (None, zeroSSHCredentials) None None)
        (emptyResourceData\<lparr>d_name := ''key''\<rparr>) freshRemote)))))
   = [cred_Passphrase zeroSSHCredentials]"
proof -
  let ?with = "emptyResourceData\<lparr>d_name := ''key'', d_passphrase := ''secret''\<rparr>"
  let ?without = "emptyResourceData\<lparr>d_name := ''key''\<rparr>"
  let ?client = "stubClient None None (None, zeroSSHCredentials) None None"
  have p1: "fst (folderExists ?client (id (d_folder ?with)) (server freshRemote)) = None"
    by (simp add: stubClient_def)
  have p2: "fst (folderExists ?client (id (d_folder ?without)) (server freshRemote)) = None"
    by (simp add: stubClient_def)
  have n1: "d_passphrase ?with \<noteq> []" by simp
  have n2: "d_passphrase ?without = []" by (simp add: emptyResourceData_def)
  have l: "calls freshRemote = []" by (simp add: freshRemote_def)
  show ?thesis
    using payload_passphrase [where client = ?client and fmt = id and d = ?with
            and w = freshRemote and gen = stubCredentialID and directEntry = "''direct''"]
          payload_passphrase [where client = ?client and fmt = id and d = ?without
            and w = freshRemote and gen = stubCredentialID and directEntry = "''direct''"]
          p1 p2 n1 n2 l
    by simp
qed


end
